theory Spec2Isabelle
  imports Complex_Main "HOL-Library.List_Lexorder" "HOL-Library.Char_ord"
begin

section \<open>Python strings\<close>

text \<open>
  Texts are modelled as \<open>string\<close> (lists of 8-bit characters) and stand for ASCII
  texts: \<open>lower\<close> maps \<open>A..Z\<close> to \<open>a..z\<close> and leaves every other character alone, and
  the white space removed by \<open>strip\<close> is the ASCII white space of Python's \<open>str\<close>
  (code points 9 to 13, 28 to 31 and 32). Python compares strings by code point, which is
  the lexicographic order on character lists used here.
\<close>

definition lower_char :: "char \<Rightarrow> char" where
  "lower_char c =
     (let n = (of_char c :: nat) in if 65 \<le> n \<and> n \<le> 90 then char_of (n + 32) else c)"

definition lower :: "string \<Rightarrow> string" where
  "lower s = map lower_char s"

definition is_space :: "char \<Rightarrow> bool" where
  "is_space c =
     (let n = (of_char c :: nat) in (9 \<le> n \<and> n \<le> 13) \<or> (28 \<le> n \<and> n \<le> 32))"

definition strip :: "string \<Rightarrow> string" where
  "strip s = rev (dropWhile is_space (rev (dropWhile is_space s)))"

text \<open>\<open>starts_with t k\<close>: the text \<open>t\<close> begins with \<open>k\<close>.\<close>

fun starts_with :: "string \<Rightarrow> string \<Rightarrow> bool" where
  "starts_with t [] = True"
| "starts_with [] (k # ks) = False"
| "starts_with (c # cs) (k # ks) = (c = k \<and> starts_with cs ks)"

text \<open>\<open>py_in k t\<close> is Python's \<open>k in t\<close> on strings: \<open>k\<close> is a contiguous substring of \<open>t\<close>.\<close>

fun py_in :: "string \<Rightarrow> string \<Rightarrow> bool" where
  "py_in k [] = (k = [])"
| "py_in k (c # cs) = (starts_with (c # cs) k \<or> py_in k cs)"

text \<open>\<open>sep.join(xs)\<close>.\<close>

fun join :: "string \<Rightarrow> string list \<Rightarrow> string" where
  "join sep [] = []"
| "join sep [x] = x"
| "join sep (x # y # ys) = x @ sep @ join sep (y # ys)"

text \<open>\<open>s.split(",")\<close>: never empty, \<open>"".split(",")\<close> is \<open>[""]\<close>.\<close>

fun split_comma :: "string \<Rightarrow> string list" where
  "split_comma [] = [[]]"
| "split_comma (c # cs) =
     (if c = CHR '','' then [] # split_comma cs
      else (case split_comma cs of
              [] \<Rightarrow> [[c]]
            | w # ws \<Rightarrow> (c # w) # ws))"

text \<open>\<open>sorted(set(xs))\<close>: the distinct elements in ascending order.\<close>

definition sorted_set :: "string list \<Rightarrow> string list" where
  "sorted_set xs = sort (remdups xs)"

section \<open>Skill extraction (core/views.py, extract_skills_from_text)\<close>

definition SKILL_KEYWORDS :: "string list" where
  "SKILL_KEYWORDS =
     [''python'', ''java'', ''c++'', ''c'', ''html'', ''css'', ''javascript'', ''react'',
      ''angular'', ''node'', ''django'', ''flask'', ''spring'', ''sql'', ''mysql'',
      ''postgresql'', ''mongodb'', ''oracle'', ''git'', ''github'', ''docker'', ''aws'',
      ''azure'', ''gcp'', ''pandas'', ''numpy'', ''matplotlib'', ''tensorflow'', ''keras'',
      ''pytorch'', ''machine learning'', ''deep learning'', ''nlp'', ''data analysis'',
      ''data science'', ''excel'', ''power bi'', ''tableau'', ''linux'']"

text \<open>
  The loop \<open>for skill in vocabulary: if skill in text_lower: found.append(skill)\<close>,
  with the list \<open>found\<close> collected so far as accumulator.
\<close>

fun find_skills :: "string list \<Rightarrow> string \<Rightarrow> string list \<Rightarrow> string list" where
  "find_skills [] text_lower found = found"
| "find_skills (skill # rest) text_lower found =
     (if py_in skill text_lower then find_skills rest text_lower (found @ [skill])
      else find_skills rest text_lower found)"

text \<open>The function over an arbitrary vocabulary list; the program uses \<open>SKILL_KEYWORDS\<close>.\<close>

definition unique_sorted_skills :: "string list \<Rightarrow> string \<Rightarrow> string list" where
  "unique_sorted_skills vocabulary text =
     (let text_lower = lower text;
          found = find_skills vocabulary text_lower []
      in sorted_set found)"

definition extract_skills_with :: "string list \<Rightarrow> string \<Rightarrow> string" where
  "extract_skills_with vocabulary text = join '', '' (unique_sorted_skills vocabulary text)"

definition extract_skills_from_text :: "string \<Rightarrow> string" where
  "extract_skills_from_text text = extract_skills_with SKILL_KEYWORDS text"

section \<open>Resume validation (core/views.py, upload_resume, step 2)\<close>

definition RESUME_KEYWORDS :: "string list" where
  "RESUME_KEYWORDS =
     [''education'', ''experience'', ''skills'', ''project'',
      ''b.tech'', ''btech'', ''bachelor'', ''masters'', ''internship'',
      ''curriculum vitae'', ''resume'']"

text \<open>
  The view rejects when
  \<open>len(cleaned) < 200 or not any(k in cleaned.lower() for k in RESUME_KEYWORDS)\<close>;
  \<open>looks_like_resume\<close> is the negation of that test, on the text the test receives.
\<close>

definition looks_like_resume :: "string \<Rightarrow> bool" where
  "looks_like_resume cleaned =
     (\<not> (length cleaned < 200 \<or> \<not> list_ex (\<lambda>k. py_in k (lower cleaned)) RESUME_KEYWORDS))"

section \<open>Similarity scoring (core/views.py, upload_resume, step 6)\<close>

datatype py_error = ValueError | Http404

text \<open>
  The view calls \<open>TfidfVectorizer(stop_words="english").fit_transform([skills_text, job_text])\<close>
  and \<open>cosine_similarity\<close> of scikit-learn, a library that is not part of the
  repository. The definitions below follow the library's documented defaults: the text
  is lowercased, its tokens are the maximal runs of two or more word characters
  (\<open>token_pattern = r"(?u)\b\w\w+\b"\<close>), tokens of the stop-word list are dropped, the
  vocabulary is the sorted set of the remaining tokens of both documents, and fitting
  raises \<open>ValueError\<close> ("empty vocabulary; perhaps the documents only contain stop
  words") when that vocabulary is empty. The library's English stop-word list is the
  parameter \<open>stop_words\<close>. Floating-point numbers are idealised as real numbers.
\<close>

definition is_word_char :: "char \<Rightarrow> bool" where
  "is_word_char c =
     (let n = (of_char c :: nat)
      in (48 \<le> n \<and> n \<le> 57) \<or> (65 \<le> n \<and> n \<le> 90) \<or> n = 95 \<or> (97 \<le> n \<and> n \<le> 122))"

text \<open>The maximal runs of word characters, \<open>cur\<close> being the run read so far.\<close>

fun word_runs :: "string \<Rightarrow> string \<Rightarrow> string list" where
  "word_runs cur [] = (if cur = [] then [] else [cur])"
| "word_runs cur (c # cs) =
     (if is_word_char c then word_runs (cur @ [c]) cs
      else (if cur = [] then [] else [cur]) @ word_runs [] cs)"

definition tokenize :: "string \<Rightarrow> string list" where
  "tokenize t = filter (\<lambda>w. 2 \<le> length w) (word_runs [] t)"

definition analyze :: "string list \<Rightarrow> string \<Rightarrow> string list" where
  "analyze stop_words doc = filter (\<lambda>w. w \<notin> set stop_words) (tokenize (lower doc))"

text \<open>Term frequency of \<open>t\<close> in a document and the number of documents containing \<open>t\<close>.\<close>

definition tf :: "string list \<Rightarrow> string \<Rightarrow> real" where
  "tf tokens t = real (count_list tokens t)"

definition df :: "string list list \<Rightarrow> string \<Rightarrow> nat" where
  "df docs t = length (filter (\<lambda>tokens. t \<in> set tokens) docs)"

text \<open>Smoothed inverse document frequency: \<open>ln((1 + n) / (1 + df)) + 1\<close>.\<close>

definition idf :: "string list list \<Rightarrow> string \<Rightarrow> real" where
  "idf docs t = ln ((1 + real (length docs)) / (1 + real (df docs t))) + 1"

definition l2_norm :: "real list \<Rightarrow> real" where
  "l2_norm v = sqrt (sum_list (map (\<lambda>x. x * x) v))"

text \<open>Row normalisation; a row of norm zero is left as it is.\<close>

definition normalize :: "real list \<Rightarrow> real list" where
  "normalize v = (let n = l2_norm v in if n = 0 then v else map (\<lambda>x. x / n) v)"

definition tfidf_row :: "string list list \<Rightarrow> string list \<Rightarrow> string list \<Rightarrow> real list" where
  "tfidf_row docs vocabulary tokens =
     normalize (map (\<lambda>t. tf tokens t * idf docs t) vocabulary)"

definition dot :: "real list \<Rightarrow> real list \<Rightarrow> real" where
  "dot v w = sum_list (map (\<lambda>(x, y). x * y) (zip v w))"

definition cosine_similarity :: "real list \<Rightarrow> real list \<Rightarrow> real" where
  "cosine_similarity v w = dot (normalize v) (normalize w)"

text \<open>\<open>round(x, 2)\<close>, rounding half to even.\<close>

definition round_half_even :: "real \<Rightarrow> int" where
  "round_half_even x =
     (let f = \<lfloor>x\<rfloor>; r = x - of_int f
      in if r < 1 / 2 then f else if 1 / 2 < r then f + 1 else if even f then f else f + 1)"

definition py_round2 :: "real \<Rightarrow> real" where
  "py_round2 x = of_int (round_half_even (x * 100)) / 100"

text \<open>
  Lines 196 to 199 of the view: fit the vectorizer on the two texts, take the cosine
  similarity of the two rows, scale to 0..100 and round to two decimals.
\<close>

definition score :: "string list \<Rightarrow> string \<Rightarrow> string \<Rightarrow> py_error + real" where
  "score stop_words skills_text job_text =
     (let docs = [analyze stop_words skills_text, analyze stop_words job_text];
          vocabulary = sorted_set (concat docs)
      in if vocabulary = [] then Inl ValueError
         else
           (let row0 = tfidf_row docs vocabulary (docs ! 0);
                row1 = tfidf_row docs vocabulary (docs ! 1);
                sim = cosine_similarity row0 row1
            in Inr (py_round2 (sim * 100))))"

section \<open>Missing-skills recommendation (core/views.py, upload_resume, lines 201 to 207)\<close>

text \<open>
  The set comprehension \<open>{s.strip().lower() for s in text.split(",") if s.strip()}\<close>.
\<close>

definition skills_set :: "string \<Rightarrow> string set" where
  "skills_set text =
     set (map (\<lambda>s. lower (strip s)) (filter (\<lambda>s. strip s \<noteq> []) (split_comma text)))"

definition missing_list :: "string \<Rightarrow> string \<Rightarrow> string list" where
  "missing_list skills_text job_text =
     sorted_list_of_set (skills_set job_text - skills_set skills_text)"

definition missing_skills :: "string \<Rightarrow> string \<Rightarrow> string" where
  "missing_skills skills_text job_text = join '', '' (missing_list skills_text job_text)"

section \<open>Data model (core/models.py)\<close>

datatype status = DRAFT | SUBMITTED | SHORTLISTED | REJECTED

record Job =
  job_id :: nat
  title :: string
  required_skills :: string

text \<open>\<open>resume_user\<close> is the nullable foreign key to the user, \<open>resume_file\<close> the stored file's name.\<close>

record Resume =
  resume_id :: nat
  resume_user :: "nat option"
  resume_file :: string
  skills :: string

text \<open>
  A \<open>Score\<close> row. The rows its two foreign keys point to are kept in the record; rows
  are compared by primary key, as the queries of the views do.
\<close>

record Score =
  score_id :: nat
  resume :: Resume
  job :: Job
  score_value :: real
  recommended_skills :: string
  is_shortlisted :: bool
  status :: status

text \<open>The tables, with the counters that give new rows their primary keys.\<close>

record db =
  jobs :: "Job list"
  resumes :: "Resume list"
  scores :: "Score list"
  next_resume_id :: nat
  next_score_id :: nat

section \<open>Requests and responses\<close>

text \<open>
  An uploaded file: its name and the text that \<open>extract_text_from_resume\<close> reads from
  it (the PDF and DOCX parsers are external libraries; a parse failure gives the empty text).
\<close>

record uploaded_file =
  file_name :: string
  file_text :: string

record request =
  req_method :: string
  req_user :: nat
  files_resume :: "uploaded_file option"
  post_skills :: "string option"

datatype level = Error | Warning | Info | Success

datatype response = Redirect string | Render string

text \<open>What a view gives back: the flashed message, if any, and the response.\<close>

record outcome =
  message :: "(level \<times> string) option"
  response :: response

definition extract_text_from_resume :: "uploaded_file \<Rightarrow> string" where
  "extract_text_from_resume uploaded = file_text uploaded"

definition MSG_NOT_A_RESUME :: string where
  "MSG_NOT_A_RESUME =
     ''The uploaded file does not look like a valid resume. '' @
     ''Please upload a proper resume (PDF/DOCX) with your details.''"

definition MSG_NO_SKILLS :: string where
  "MSG_NO_SKILLS =
     ''No technical skills were detected in your resume. '' @
     ''Please clearly list your skills (e.g. 'Python, Django, SQL') '' @
     ''in your resume and upload again.''"

definition MSG_ALL_APPLIED :: string where
  "MSG_ALL_APPLIED =
     ''You have already created applications for all current jobs. '' @
     ''No new applications were created.''"

definition MSG_ANALYSED :: string where
  "MSG_ANALYSED =
     ''Resume analysed. Draft applications created for new jobs. '' @
     ''Check 'My Applications' to see scores and skill suggestions.''"

section \<open>The upload view (core/views.py, upload_resume)\<close>

text \<open>\<open>Score.objects.filter(job=job, resume__user=request.user).exists()\<close>.\<close>

definition already_exists :: "db \<Rightarrow> Job \<Rightarrow> nat \<Rightarrow> bool" where
  "already_exists d j u =
     list_ex (\<lambda>s. job_id (job s) = job_id j \<and> resume_user (resume s) = Some u) (scores d)"

text \<open>\<open>Score.objects.create(...)\<close> of step 6: a new \<open>DRAFT\<close> row, not shortlisted.\<close>

definition create_score :: "db \<Rightarrow> Resume \<Rightarrow> Job \<Rightarrow> real \<Rightarrow> string \<Rightarrow> db" where
  "create_score d r j v missing =
     d\<lparr>scores := scores d @
          [\<lparr>score_id = next_score_id d, resume = r, job = j, score_value = v,
            recommended_skills = missing, is_shortlisted = False, status = DRAFT\<rparr>],
       next_score_id := Suc (next_score_id d)\<rparr>"

text \<open>
  The loop \<open>for job in jobs\<close> of step 6 over the jobs still to visit, threading the
  database and \<open>created_any\<close>. An exception of the scorer leaves the loop at once; the
  rows written before it stay written.
\<close>

fun create_drafts ::
  "string list \<Rightarrow> nat \<Rightarrow> Resume \<Rightarrow> string \<Rightarrow> Job list \<Rightarrow> db \<Rightarrow> bool \<Rightarrow> db \<times> (py_error + bool)" where
  "create_drafts stop_words u r skills_text [] d created_any = (d, Inr created_any)"
| "create_drafts stop_words u r skills_text (j # js) d created_any =
     (if already_exists d j u then create_drafts stop_words u r skills_text js d created_any
      else
        (case score stop_words skills_text (required_skills j) of
           Inl e \<Rightarrow> (d, Inl e)
         | Inr v \<Rightarrow>
             create_drafts stop_words u r skills_text js
               (create_score d r j v (missing_skills skills_text (required_skills j)))
               True))"

text \<open>
  The end of the view (lines 220 to 233), after the loop: an exception of the loop
  propagates; otherwise \<open>created_any\<close> chooses between the warning and the success
  message.
\<close>

definition finish_upload :: "db \<times> (py_error + bool) \<Rightarrow> db \<times> (py_error + outcome)" where
  "finish_upload p =
     (case p of
        (d2, Inl e) \<Rightarrow> (d2, Inl e)
      | (d2, Inr created_any) \<Rightarrow>
          if \<not> created_any
          then (d2, Inr \<lparr>message = Some (Warning, MSG_ALL_APPLIED),
                         response = Redirect ''my_applications''\<rparr>)
          else (d2, Inr \<lparr>message = Some (Success, MSG_ANALYSED),
                         response = Redirect ''my_applications''\<rparr>))"

definition upload_resume :: "string list \<Rightarrow> db \<Rightarrow> request \<Rightarrow> db \<times> (py_error + outcome)" where
  "upload_resume stop_words d req =
     (case (if req_method req = ''POST'' then files_resume req else None) of
        None \<Rightarrow> (d, Inr \<lparr>message = None, response = Render ''upload_resume.html''\<rparr>)
      | Some file \<Rightarrow>
          (let resume_text = extract_text_from_resume file;
               cleaned = strip resume_text
           in if \<not> looks_like_resume cleaned
              then (d, Inr \<lparr>message = Some (Error, MSG_NOT_A_RESUME),
                            response = Redirect ''upload_resume''\<rparr>)
              else
                (let extracted_skills = extract_skills_from_text cleaned
                 in if extracted_skills = []
                    then (d, Inr \<lparr>message = Some (Error, MSG_NO_SKILLS),
                                  response = Redirect ''upload_resume''\<rparr>)
                    else
                      (let extra_skills =
                             strip (case post_skills req of None \<Rightarrow> [] | Some s \<Rightarrow> s);
                           all_skills =
                             [extracted_skills] @ (if extra_skills \<noteq> [] then [extra_skills] else []);
                           skills_text = join '', '' all_skills;
                           r = \<lparr>resume_id = next_resume_id d, resume_user = Some (req_user req),
                                resume_file = file_name file, skills = skills_text\<rparr>;
                           d1 = d\<lparr>resumes := resumes d @ [r],
                                  next_resume_id := Suc (next_resume_id d)\<rparr>
                       in finish_upload
                            (create_drafts stop_words (req_user req) r skills_text (jobs d1) d1 False)))))"

section \<open>Submission and the recruiter's decision (core/views.py)\<close>

text \<open>\<open>score.save()\<close>: the row with the score's primary key is replaced.\<close>

definition save_score :: "db \<Rightarrow> Score \<Rightarrow> db" where
  "save_score d sc = d\<lparr>scores := map (\<lambda>s. if score_id s = score_id sc then sc else s) (scores d)\<rparr>"

definition submit_application :: "db \<Rightarrow> nat \<Rightarrow> nat \<Rightarrow> db \<times> (py_error + outcome)" where
  "submit_application d u sid =
     (case find (\<lambda>s. score_id s = sid \<and> resume_user (resume s) = Some u) (scores d) of
        None \<Rightarrow> (d, Inl Http404)
      | Some sc \<Rightarrow>
          if status sc \<noteq> DRAFT
          then (d, Inr \<lparr>message = Some (Info, ''This application is already submitted.''),
                        response = Redirect ''my_applications''\<rparr>)
          else (save_score d (sc\<lparr>status := SUBMITTED\<rparr>),
                Inr \<lparr>message = Some (Success,
                        ''Application for '' @ [CHR 0x27] @ title (job sc) @ [CHR 0x27] @
                        '' submitted to recruiter.''),
                     response = Redirect ''my_applications''\<rparr>))"

text \<open>The two assignments of \<open>toggle_shortlist\<close> on the row it fetched.\<close>

definition toggle :: "Score \<Rightarrow> Score" where
  "toggle sc =
     (let sc1 = sc\<lparr>is_shortlisted := \<not> is_shortlisted sc\<rparr>
      in sc1\<lparr>status := (if is_shortlisted sc1 then SHORTLISTED else REJECTED)\<rparr>)"

definition toggle_shortlist :: "db \<Rightarrow> nat \<Rightarrow> db \<times> (py_error + outcome)" where
  "toggle_shortlist d sid =
     (case find (\<lambda>s. score_id s = sid) (scores d) of
        None \<Rightarrow> (d, Inl Http404)
      | Some sc \<Rightarrow>
          (save_score d (toggle sc),
           Inr \<lparr>message = None, response = Redirect ''recruiter_dashboard''\<rparr>))"

section \<open>Properties stated about the tables\<close>


section \<open>Sample data\<close>

definition sample_stop_words :: "string list" where
  "sample_stop_words = [''and'', ''the'', ''of'', ''with'']"

definition sample_resume_text :: string where
  "sample_resume_text =
     ''Education: B.Tech. Skills: Python and SQL. '' @ replicate 200 CHR ''.''"

definition sample_short_text :: string where
  "sample_short_text = ''education'' @ replicate 141 CHR ''x''"

definition sample_no_skill_text :: string where
  "sample_no_skill_text = ''resume '' @ replicate 200 CHR ''z''"

definition sample_job :: Job where
  "sample_job = \<lparr>job_id = 1, title = ''Backend'', required_skills = ''python, django, sql''\<rparr>"

definition sample_db :: db where
  "sample_db =
     \<lparr>jobs = [sample_job], resumes = [], scores = [], next_resume_id = 1, next_score_id = 1\<rparr>"

definition sample_request :: "string \<Rightarrow> request" where
  "sample_request text =
     \<lparr>req_method = ''POST'', req_user = 7,
      files_resume = Some \<lparr>file_name = ''cv.txt'', file_text = text\<rparr>,
      post_skills = None\<rparr>"

text \<open>A stored resume of user 7 and a draft score of it for the sample job.\<close>

definition sample_resume :: Resume where
  "sample_resume =
     \<lparr>resume_id = 1, resume_user = Some 7, resume_file = ''cv.txt'', skills = ''c, python, sql''\<rparr>"

definition sample_score :: Score where
  "sample_score =
     \<lparr>score_id = 1, resume = sample_resume, job = sample_job, score_value = 50,
      recommended_skills = ''django'', is_shortlisted = False, status = DRAFT\<rparr>"

definition sample_db_matched :: db where
  "sample_db_matched =
     \<lparr>jobs = [sample_job], resumes = [sample_resume], scores = [sample_score],
      next_resume_id = 2, next_score_id = 2\<rparr>"

definition sample_db_no_jobs :: db where
  "sample_db_no_jobs =
     \<lparr>jobs = [], resumes = [], scores = [], next_resume_id = 1, next_score_id = 1\<rparr>"

text \<open>A resume in which the only keyword found is "c", and a job asking for C and C++.\<close>

definition sample_c_text :: string where
  "sample_c_text = ''Education and experience. '' @ replicate 200 CHR ''.''"

definition sample_c_job :: Job where
  "sample_c_job = \<lparr>job_id = 2, title = ''Embedded'', required_skills = ''C, C++''\<rparr>"

definition sample_db_c :: db where
  "sample_db_c =
     \<lparr>jobs = [sample_c_job], resumes = [], scores = [], next_resume_id = 1, next_score_id = 1\<rparr>"

section \<open>The order of the lifecycle\<close>

text \<open>\<open>DRAFT\<close>, then \<open>SUBMITTED\<close>, then the two decisions, which are on a par.\<close>

fun status_rank :: "status \<Rightarrow> nat" where
  "status_rank DRAFT = 0"
| "status_rank SUBMITTED = 1"
| "status_rank SHORTLISTED = 2"
| "status_rank REJECTED = 2"

section \<open>Facts about the string operations\<close>

lemma starts_with_iff: "starts_with t k \<longleftrightarrow> (\<exists>s. t = k @ s)"
  by (induction t k rule: starts_with.induct) auto

lemma py_in_iff: "py_in k t \<longleftrightarrow> (\<exists>p s. t = p @ k @ s)"
proof (induction t)
  case Nil
  then show ?case by auto
next
  case (Cons c cs)
  show ?case
  proof
    assume "py_in k (c # cs)"
    then consider "starts_with (c # cs) k" | "py_in k cs" by auto
    then show "\<exists>p s. c # cs = p @ k @ s"
    proof cases
      case 1
      then obtain s where "c # cs = k @ s" by (auto simp: starts_with_iff)
      then have "c # cs = [] @ k @ s" by simp
      then show ?thesis by blast
    next
      case 2
      then obtain p s where "cs = p @ k @ s" using Cons.IH by auto
      then have "c # cs = (c # p) @ k @ s" by simp
      then show ?thesis by blast
    qed
  next
    assume "\<exists>p s. c # cs = p @ k @ s"
    then obtain p s where ps: "c # cs = p @ k @ s" by blast
    show "py_in k (c # cs)"
    proof (cases p)
      case Nil
      then have "starts_with (c # cs) k" using ps by (auto simp: starts_with_iff)
      then show ?thesis by simp
    next
      case (Cons a p')
      then have "cs = p' @ k @ s" using ps by simp
      then have "py_in k cs" using Cons.IH by blast
      then show ?thesis by simp
    qed
  qed
qed

lemma py_in_subset: "py_in k t \<Longrightarrow> set k \<subseteq> set t"
  by (auto simp: py_in_iff)

lemma py_in_single: "py_in [c] t \<longleftrightarrow> c \<in> set t"
  by (induction t) auto

lemma find_skills_filter:
  "find_skills vocabulary txt found = found @ filter (\<lambda>k. py_in k txt) vocabulary"
  by (induction vocabulary arbitrary: found) auto

lemma sorted_set_eq: "sorted_set xs = sorted_list_of_set (set xs)"
  by (simp add: sorted_set_def sorted_list_of_set_sort_remdups)

lemma unique_sorted_skills_eq:
  "unique_sorted_skills vocabulary text =
     sorted_list_of_set {k \<in> set vocabulary. py_in k (lower text)}"
proof -
  have "set (filter (\<lambda>k. py_in k (lower text)) vocabulary) = {k \<in> set vocabulary. py_in k (lower text)}"
    by auto
  then show ?thesis
    by (simp add: unique_sorted_skills_def find_skills_filter sorted_set_eq)
qed

lemma join_eq_Nil_iff: "join sep xs = [] \<longleftrightarrow> (\<forall>x \<in> set xs. x = []) \<and> (sep = [] \<or> length xs \<le> 1)"
  by (induction sep xs rule: join.induct) auto

lemma py_in_join: "x \<in> set xs \<Longrightarrow> py_in k x \<Longrightarrow> py_in k (join sep xs)"
proof (induction sep xs rule: join.induct)
  case (1 sep)
  then show ?case by simp
next
  case (2 sep y)
  then show ?case by simp
next
  case (3 sep y z zs)
  show ?case
  proof (cases "x = y")
    case True
    with 3 obtain p s where "y = p @ k @ s" by (auto simp: py_in_iff)
    then have "join sep (y # z # zs) = p @ k @ (s @ sep @ join sep (z # zs))" by simp
    then show ?thesis unfolding py_in_iff by blast
  next
    case False
    with 3 have "py_in k (join sep (z # zs))" by auto
    then obtain p s where "join sep (z # zs) = p @ k @ s" by (auto simp: py_in_iff)
    then have "join sep (y # z # zs) = (y @ sep @ p) @ k @ s" by simp
    then show ?thesis unfolding py_in_iff by blast
  qed
qed

lemma lower_char_c: "lower_char CHR ''C'' = CHR ''c''" "lower_char CHR ''c'' = CHR ''c''"
  by code_simp+

lemma c_in_lower: "CHR ''c'' \<in> set t \<or> CHR ''C'' \<in> set t \<Longrightarrow> CHR ''c'' \<in> set (lower t)"
  unfolding lower_def using lower_char_c by (metis image_eqI set_map)

lemma in_dropWhile: "x \<in> set xs \<Longrightarrow> \<not> P x \<Longrightarrow> x \<in> set (dropWhile P xs)"
  by (induction xs) auto

lemma in_strip: "x \<in> set t \<Longrightarrow> \<not> is_space x \<Longrightarrow> x \<in> set (strip t)"
  by (simp add: strip_def in_dropWhile)

lemma strip_Nil: "strip [] = []"
  by (simp add: strip_def)

section \<open>Missing-skills recommendation\<close>

lemma split_comma_nonempty: "split_comma t \<noteq> []"
  by (induction t) (auto split: list.splits)

text \<open>The model of \<open>split\<close> is right: joining the pieces with commas gives the text
  back, and no piece contains a comma.\<close>

lemma join_split_comma: "join '','' (split_comma t) = t"
proof (induction t)
  case Nil
  then show ?case by simp
next
  case (Cons c cs)
  obtain w ws where sp: "split_comma cs = w # ws"
    using split_comma_nonempty [of cs] by (cases "split_comma cs") auto
  show ?case
  proof (cases "c = CHR '',''")
    case True
    then show ?thesis using Cons sp by simp
  next
    case False
    then show ?thesis using Cons sp by (cases ws) auto
  qed
qed

lemma split_comma_no_comma: "w \<in> set (split_comma t) \<Longrightarrow> CHR '','' \<notin> set w"
  by (induction t arbitrary: w) (auto split: if_splits list.splits)

lemma skills_set_iff:
  "x \<in> skills_set t \<longleftrightarrow> (\<exists>s \<in> set (split_comma t). strip s \<noteq> [] \<and> x = lower (strip s))"
  by (auto simp: skills_set_def)

lemma finite_skills_set: "finite (skills_set t)"
  by (simp add: skills_set_def)

text \<open>
  Claim C6. For every candidate skill text \<open>c\<close> and job skill text \<open>j\<close>, the
  recommendation is the \<open>", "\<close>-joined list of the elements, in ascending order and
  without repetition, of the set difference (job skill set minus candidate skill set),
  where each set holds the lowercased, trimmed, non-empty pieces of the text split at
  commas. For job skills "python, django, sql" and candidate skills "python, sql" it is
  "django".
\<close>

theorem missing_skills_set_difference:
  "missing_skills c j = join '', '' (missing_list c j)
   \<and> sorted (missing_list c j) \<and> distinct (missing_list c j)
   \<and> set (missing_list c j) =
       {x. \<exists>s \<in> set (split_comma j). strip s \<noteq> [] \<and> x = lower (strip s)}
       - {x. \<exists>s \<in> set (split_comma c). strip s \<noteq> [] \<and> x = lower (strip s)}
   \<and> missing_skills ''python, sql'' ''python, django, sql'' = ''django''"
proof -
  have fin: "finite (skills_set j - skills_set c)"
    by (simp add: finite_skills_set)
  have a: "set (missing_list c j) = skills_set j - skills_set c"
    using fin by (simp add: missing_list_def)
  have b: "skills_set j = {x. \<exists>s \<in> set (split_comma j). strip s \<noteq> [] \<and> x = lower (strip s)}"
    "skills_set c = {x. \<exists>s \<in> set (split_comma c). strip s \<noteq> [] \<and> x = lower (strip s)}"
    using skills_set_iff by blast+
  have e: "missing_skills ''python, sql'' ''python, django, sql'' = ''django''"
    by code_simp
  show ?thesis
    using a b e by (simp add: missing_skills_def missing_list_def)
qed

theorem missing_skills_witness:
  "missing_skills ''Python,sql'' '' SQL , Django,,flask '' = ''django, flask''
   \<and> set (missing_list ''Python,sql'' '' SQL , Django,,flask '') = {''django'', ''flask''}"
proof -
  have v: "missing_list ''Python,sql'' '' SQL , Django,,flask '' = [''django'', ''flask'']"
    by code_simp
  show ?thesis
    using missing_skills_set_difference [of "''Python,sql''" "'' SQL , Django,,flask ''"]
    by (simp add: v)
qed

section \<open>The shortlist toggle\<close>

lemma find_score_id: "find (\<lambda>s. score_id s = sid) xs = Some sc \<Longrightarrow> score_id sc = sid"
  by (induction xs) (auto split: if_splits)

text \<open>
  Claim C10. After the shortlist toggle, whatever the status of the record before
  (\<open>DRAFT\<close> included), the record's status is \<open>SHORTLISTED\<close> exactly when
  \<open>is_shortlisted\<close> is true and \<open>REJECTED\<close> exactly when it is false; the flag is
  flipped and the status is never \<open>DRAFT\<close> or \<open>SUBMITTED\<close> again. This holds of the
  assignments themselves and of every stored row with the given primary key after the
  view has run.
\<close>

theorem toggle_status_matches_flag:
  "(status (toggle sc) = SHORTLISTED \<longleftrightarrow> is_shortlisted (toggle sc))
   \<and> (status (toggle sc) = REJECTED \<longleftrightarrow> \<not> is_shortlisted (toggle sc))
   \<and> is_shortlisted (toggle sc) = (\<not> is_shortlisted sc)
   \<and> status (toggle sc) \<noteq> DRAFT \<and> status (toggle sc) \<noteq> SUBMITTED
   \<and> (find (\<lambda>s. score_id s = sid) (scores d) = Some sc0 \<longrightarrow>
        (\<forall>s \<in> set (scores (fst (toggle_shortlist d sid))). score_id s = sid \<longrightarrow>
           (status s = SHORTLISTED \<longleftrightarrow> is_shortlisted s)
           \<and> (status s = REJECTED \<longleftrightarrow> \<not> is_shortlisted s)))"
proof -
  have rec: "(status (toggle sc) = SHORTLISTED \<longleftrightarrow> is_shortlisted (toggle sc))
     \<and> (status (toggle sc) = REJECTED \<longleftrightarrow> \<not> is_shortlisted (toggle sc))
     \<and> is_shortlisted (toggle sc) = (\<not> is_shortlisted sc)
     \<and> status (toggle sc) \<noteq> DRAFT \<and> status (toggle sc) \<noteq> SUBMITTED" for sc
    by (simp add: toggle_def Let_def)
  have view: "(status s = SHORTLISTED \<longleftrightarrow> is_shortlisted s)
       \<and> (status s = REJECTED \<longleftrightarrow> \<not> is_shortlisted s)"
    if f: "find (\<lambda>s. score_id s = sid) (scores d) = Some sc0"
      and s: "s \<in> set (scores (fst (toggle_shortlist d sid)))" "score_id s = sid" for s
  proof -
    have id0: "score_id sc0 = sid" using f by (rule find_score_id)
    have id1: "score_id (toggle sc0) = sid" using id0 by (simp add: toggle_def Let_def)
    have "s = toggle sc0"
      using s f id1 by (auto simp: toggle_shortlist_def save_score_def)
    then show ?thesis using rec [of sc0] by simp
  qed
  show ?thesis using rec [of sc] view by blast
qed

theorem toggle_status_matches_flag_witness:
  "find (\<lambda>s. score_id s = 1) (scores sample_db_matched) = Some sample_score
   \<and> status sample_score = DRAFT
   \<and> map (\<lambda>s. (score_id s, status s, is_shortlisted s))
        (scores (fst (toggle_shortlist sample_db_matched 1))) = [(1, SHORTLISTED, True)]"
proof -
  have f: "find (\<lambda>s. score_id s = 1) (scores sample_db_matched) = Some sample_score"
    by (simp add: sample_db_matched_def sample_score_def)
  have st: "status sample_score = DRAFT"
    by (simp add: sample_score_def)
  have ev: "scores (fst (toggle_shortlist sample_db_matched 1)) = [toggle sample_score]"
    by (simp add: toggle_shortlist_def save_score_def sample_db_matched_def sample_score_def
        toggle_def Let_def)
  have id: "score_id (toggle sample_score) = 1" "\<not> is_shortlisted sample_score"
    by (simp_all add: toggle_def Let_def sample_score_def)
  show ?thesis
    using toggle_status_matches_flag [of sample_score 1 sample_db_matched sample_score] f st ev id
    by simp
qed

section \<open>Resume validation\<close>

lemma list_ex_py_in: "list_ex (\<lambda>k. py_in k t) ks \<longleftrightarrow> (\<exists>k \<in> set ks. \<exists>p s. t = p @ k @ s)"
  by (simp add: list_ex_iff py_in_iff)

text \<open>
  Claim C5. The validator accepts the text it is given if and only if the text has at
  least 200 characters and its lowercased form contains one of the eleven keywords as a
  contiguous substring; a text of 150 characters is rejected, whatever it contains. (The
  view hands the validator the extracted text with leading and trailing white space
  removed.)
\<close>

theorem looks_like_resume_iff:
  "(looks_like_resume t \<longleftrightarrow>
      200 \<le> length t
      \<and> (\<exists>k \<in> {''education'', ''experience'', ''skills'', ''project'', ''b.tech'', ''btech'',
                 ''bachelor'', ''masters'', ''internship'', ''curriculum vitae'', ''resume''}.
            \<exists>p s. lower t = p @ k @ s))
   \<and> (length t = 150 \<longrightarrow> \<not> looks_like_resume t)"
proof -
  have ks: "set RESUME_KEYWORDS =
      {''education'', ''experience'', ''skills'', ''project'', ''b.tech'', ''btech'',
       ''bachelor'', ''masters'', ''internship'', ''curriculum vitae'', ''resume''}"
    by (simp add: RESUME_KEYWORDS_def)
  have "looks_like_resume t \<longleftrightarrow>
      200 \<le> length t \<and> (\<exists>k \<in> set RESUME_KEYWORDS. \<exists>p s. lower t = p @ k @ s)"
    unfolding looks_like_resume_def list_ex_py_in by auto
  then show ?thesis unfolding ks by auto
qed

theorem looks_like_resume_witness:
  "length sample_short_text = 150
   \<and> py_in ''education'' (lower sample_short_text)
   \<and> \<not> looks_like_resume sample_short_text
   \<and> looks_like_resume sample_resume_text"
proof -
  have l: "length sample_short_text = 150"
    by (simp add: sample_short_text_def)
  have e: "py_in ''education'' (lower sample_short_text)"
    by code_simp
  have a: "looks_like_resume sample_resume_text"
    by code_simp
  show ?thesis
    using looks_like_resume_iff [of sample_short_text] l e a by blast
qed

section \<open>The views on the sample data\<close>

lemma sample_resume_text_facts:
  "strip sample_resume_text = sample_resume_text"
  "looks_like_resume sample_resume_text"
  "extract_skills_from_text sample_resume_text = ''c, python, sql''"
  by code_simp+

lemma sample_no_skill_text_facts:
  "strip sample_no_skill_text = sample_no_skill_text"
  "looks_like_resume sample_no_skill_text"
  "extract_skills_from_text sample_no_skill_text = []"
  by code_simp+

lemma sample_short_text_facts:
  "strip sample_short_text = sample_short_text"
  "\<not> looks_like_resume sample_short_text"
  by code_simp+

lemma upload_sample_matched:
  "upload_resume st sample_db_matched (sample_request sample_resume_text) =
     (sample_db_matched
        \<lparr>resumes := [sample_resume,
                     \<lparr>resume_id = 2, resume_user = Some 7, resume_file = ''cv.txt'',
                      skills = ''c, python, sql''\<rparr>],
         next_resume_id := 3\<rparr>,
      Inr \<lparr>message = Some (Warning, MSG_ALL_APPLIED), response = Redirect ''my_applications''\<rparr>)"
  by (simp add: upload_resume_def finish_upload_def sample_request_def extract_text_from_resume_def Let_def
      sample_resume_text_facts strip_Nil already_exists_def sample_db_matched_def
      sample_score_def sample_resume_def sample_job_def)

lemma upload_sample_no_jobs:
  "upload_resume st sample_db_no_jobs (sample_request sample_resume_text) =
     (sample_db_no_jobs
        \<lparr>resumes := [\<lparr>resume_id = 1, resume_user = Some 7, resume_file = ''cv.txt'',
                      skills = ''c, python, sql''\<rparr>],
         next_resume_id := 2\<rparr>,
      Inr \<lparr>message = Some (Warning, MSG_ALL_APPLIED), response = Redirect ''my_applications''\<rparr>)"
  by (simp add: upload_resume_def finish_upload_def sample_request_def extract_text_from_resume_def Let_def
      sample_resume_text_facts strip_Nil sample_db_no_jobs_def)

section \<open>Skill extraction: the keyword c\<close>

lemma keyword_c: "''c'' \<in> set SKILL_KEYWORDS"
  by (simp add: SKILL_KEYWORDS_def)

lemma keyword_java: "''java'' \<in> set SKILL_KEYWORDS" "''javascript'' \<in> set SKILL_KEYWORDS"
  by (simp_all add: SKILL_KEYWORDS_def)

lemma set_unique_sorted_skills:
  "set (unique_sorted_skills vocabulary text) = {k \<in> set vocabulary. py_in k (lower text)}"
  by (simp add: unique_sorted_skills_eq)

lemma py_in_trans: "py_in a b \<Longrightarrow> py_in b t \<Longrightarrow> py_in a t"
proof -
  assume "py_in a b" "py_in b t"
  then obtain p s p' s' where "b = p @ a @ s" "t = p' @ b @ s'"
    by (auto simp: py_in_iff)
  then have "t = (p' @ p) @ a @ (s @ s')" by simp
  then show ?thesis unfolding py_in_iff by blast
qed

lemma extract_nonempty:
  assumes "k \<in> set (unique_sorted_skills SKILL_KEYWORDS t)" "k \<noteq> []"
  shows "extract_skills_from_text t \<noteq> []"
  using assms
  by (auto simp: extract_skills_from_text_def extract_skills_with_def join_eq_Nil_iff)

lemma c_detected:
  assumes "CHR ''c'' \<in> set (lower t)"
  shows "''c'' \<in> set (unique_sorted_skills SKILL_KEYWORDS t)"
    and "extract_skills_from_text t \<noteq> []"
    and "py_in ''c'' (extract_skills_from_text t)"
proof -
  have "py_in ''c'' (lower t)" using assms by (simp add: py_in_single)
  then show c: "''c'' \<in> set (unique_sorted_skills SKILL_KEYWORDS t)"
    using keyword_c by (simp add: set_unique_sorted_skills)
  then show "extract_skills_from_text t \<noteq> []"
    by (rule extract_nonempty) simp
  have "py_in ''c'' ''c''" by simp
  then show "py_in ''c'' (extract_skills_from_text t)"
    unfolding extract_skills_from_text_def extract_skills_with_def
    using c py_in_join by blast
qed

lemma MSG_distinct:
  "MSG_NOT_A_RESUME \<noteq> MSG_NO_SKILLS" "MSG_ALL_APPLIED \<noteq> MSG_ANALYSED"
  "MSG_ALL_APPLIED \<noteq> MSG_NO_SKILLS" "MSG_ALL_APPLIED \<noteq> MSG_NOT_A_RESUME"
  by (simp_all add: MSG_NOT_A_RESUME_def MSG_NO_SKILLS_def MSG_ALL_APPLIED_def MSG_ANALYSED_def)

text \<open>The message of the upload view is "no skills" only on the branch taken when
  extraction gives the empty string.\<close>

lemma upload_no_skills_branch:
  assumes "snd (upload_resume st d req) = Inr out" "message out = Some (Error, MSG_NO_SKILLS)"
  shows "\<exists>f. files_resume req = Some f \<and> extract_skills_from_text (strip (file_text f)) = []"
proof (cases "if req_method req = ''POST'' then files_resume req else None")
  case None
  then show ?thesis using assms by (auto simp: upload_resume_def)
next
  case (Some f)
  then have fr: "files_resume req = Some f" by (auto split: if_splits)
  show ?thesis
  proof (rule ccontr)
    assume "\<not> ?thesis"
    then have ne: "extract_skills_from_text (strip (file_text f)) \<noteq> []" using fr by simp
    show False
      using assms Some ne MSG_distinct
      by (auto simp: upload_resume_def finish_upload_def Let_def extract_text_from_resume_def
          split: if_splits prod.splits sum.splits)
  qed
qed

text \<open>
  Claim C9. Matching is substring containment and the vocabulary holds the one-letter
  keyword "c": every text containing the letter c, in either case, yields a non-empty
  result that lists the keyword "c"; every text containing "javascript" also lists
  "java". So a text containing "education", "experience" or "project" never yields the
  empty result, and an upload whose text contains the letter c never ends with the
  "no technical skills" message.
\<close>

theorem letter_c_always_detected:
  "(CHR ''c'' \<in> set t \<or> CHR ''C'' \<in> set t \<longrightarrow>
      ''c'' \<in> set (unique_sorted_skills SKILL_KEYWORDS t)
      \<and> extract_skills_from_text t = join '', '' (unique_sorted_skills SKILL_KEYWORDS t)
      \<and> extract_skills_from_text t \<noteq> []
      \<and> py_in ''c'' (extract_skills_from_text t))
   \<and> (py_in ''javascript'' (lower t) \<longrightarrow>
      ''java'' \<in> set (unique_sorted_skills SKILL_KEYWORDS t)
      \<and> ''javascript'' \<in> set (unique_sorted_skills SKILL_KEYWORDS t))
   \<and> (py_in ''education'' (lower t) \<or> py_in ''experience'' (lower t) \<or> py_in ''project'' (lower t)
      \<longrightarrow> extract_skills_from_text t \<noteq> [])
   \<and> (files_resume req = Some f \<and> (CHR ''c'' \<in> set (file_text f) \<or> CHR ''C'' \<in> set (file_text f))
      \<longrightarrow> (\<forall>out. snd (upload_resume st d req) = Inr out
              \<longrightarrow> message out \<noteq> Some (Error, MSG_NO_SKILLS)))"
proof -
  have p1: "''c'' \<in> set (unique_sorted_skills SKILL_KEYWORDS t)
      \<and> extract_skills_from_text t = join '', '' (unique_sorted_skills SKILL_KEYWORDS t)
      \<and> extract_skills_from_text t \<noteq> []
      \<and> py_in ''c'' (extract_skills_from_text t)"
    if "CHR ''c'' \<in> set t \<or> CHR ''C'' \<in> set t"
    using c_detected [OF c_in_lower [OF that]]
    by (simp add: extract_skills_from_text_def extract_skills_with_def)
  have p2: "''java'' \<in> set (unique_sorted_skills SKILL_KEYWORDS t)
      \<and> ''javascript'' \<in> set (unique_sorted_skills SKILL_KEYWORDS t)"
    if js: "py_in ''javascript'' (lower t)"
  proof -
    have "py_in ''java'' ''javascript''" by simp
    then have "py_in ''java'' (lower t)" using js by (rule py_in_trans)
    then show ?thesis using js keyword_java by (simp add: set_unique_sorted_skills)
  qed
  have p3: "extract_skills_from_text t \<noteq> []"
    if "py_in ''education'' (lower t) \<or> py_in ''experience'' (lower t) \<or> py_in ''project'' (lower t)"
  proof -
    have "CHR ''c'' \<in> set (lower t)"
      using that py_in_subset by fastforce
    then show ?thesis by (rule c_detected)
  qed
  have p4: "message out \<noteq> Some (Error, MSG_NO_SKILLS)"
    if fr: "files_resume req = Some f"
      and c: "CHR ''c'' \<in> set (file_text f) \<or> CHR ''C'' \<in> set (file_text f)"
      and out: "snd (upload_resume st d req) = Inr out" for out
  proof
    assume "message out = Some (Error, MSG_NO_SKILLS)"
    then have e: "extract_skills_from_text (strip (file_text f)) = []"
      using upload_no_skills_branch [OF out] fr by auto
    have ns: "\<not> is_space CHR ''c''" "\<not> is_space CHR ''C''" by code_simp+
    have "CHR ''c'' \<in> set (strip (file_text f)) \<or> CHR ''C'' \<in> set (strip (file_text f))"
      using c ns in_strip by blast
    then have "extract_skills_from_text (strip (file_text f)) \<noteq> []"
      using c_detected(2) c_in_lower by blast
    then show False using e by simp
  qed
  show ?thesis using p1 p2 p3 p4 by blast
qed

theorem letter_c_always_detected_witness:
  "CHR ''C'' \<in> set ''C and SQL''
   \<and> extract_skills_from_text ''C and SQL'' = ''c, sql''
   \<and> py_in ''javascript'' (lower ''JavaScript'')
   \<and> unique_sorted_skills SKILL_KEYWORDS ''JavaScript'' = [''c'', ''java'', ''javascript'']
   \<and> py_in ''education'' (lower ''Education'')
   \<and> extract_skills_from_text ''Education'' = ''c''
   \<and> CHR ''c'' \<in> set sample_resume_text
   \<and> snd (upload_resume sample_stop_words sample_db_matched (sample_request sample_resume_text)) =
        Inr \<lparr>message = Some (Warning, MSG_ALL_APPLIED), response = Redirect ''my_applications''\<rparr>"
proof -
  have a: "CHR ''C'' \<in> set ''C and SQL''" by simp
  have b: "extract_skills_from_text ''C and SQL'' = ''c, sql''" by code_simp
  have c: "py_in ''javascript'' (lower ''JavaScript'')" by code_simp
  have d: "unique_sorted_skills SKILL_KEYWORDS ''JavaScript'' = [''c'', ''java'', ''javascript'']"
    by code_simp
  have e: "py_in ''education'' (lower ''Education'')" by code_simp
  have f: "extract_skills_from_text ''Education'' = ''c''" by code_simp
  have g: "CHR ''c'' \<in> set sample_resume_text" by (simp add: sample_resume_text_def)
  note h = upload_sample_matched [of sample_stop_words]
  show ?thesis
    using letter_c_always_detected [of "''C and SQL''"] a b c d e f g h
    by simp
qed

section \<open>Skill extraction: canonical output\<close>

lemma unique_sorted_skills_cong:
  assumes "\<forall>k \<in> set v. py_in k (lower t) = py_in k (lower t')"
  shows "unique_sorted_skills v t = unique_sorted_skills v t'"
proof -
  have "{k \<in> set v. py_in k (lower t)} = {k \<in> set v. py_in k (lower t')}"
    using assms by auto
  then show ?thesis by (simp add: unique_sorted_skills_eq)
qed

text \<open>
  Claim C7. For every text, the extractor's output is the \<open>", "\<close>-joined list, in
  ascending order and without repetition, of the vocabulary keywords contained in the
  lowercased text. It therefore does not depend on the order in which the vocabulary is
  traversed, on the case of the input, or on where and how often the keywords occur:
  two texts matching the same keywords give the same string.
\<close>

theorem extract_skills_sorted_deduplicated:
  "extract_skills_from_text t =
     join '', '' (sorted_list_of_set {k \<in> set SKILL_KEYWORDS. py_in k (lower t)})
   \<and> sorted (unique_sorted_skills SKILL_KEYWORDS t)
   \<and> distinct (unique_sorted_skills SKILL_KEYWORDS t)
   \<and> (set v = set SKILL_KEYWORDS \<longrightarrow> extract_skills_with v t = extract_skills_from_text t)
   \<and> (lower t = lower t' \<longrightarrow> extract_skills_from_text t = extract_skills_from_text t')
   \<and> ((\<forall>k \<in> set SKILL_KEYWORDS. py_in k (lower t) = py_in k (lower t'))
        \<longrightarrow> extract_skills_from_text t = extract_skills_from_text t')"
proof -
  have a: "extract_skills_from_text t =
     join '', '' (sorted_list_of_set {k \<in> set SKILL_KEYWORDS. py_in k (lower t)})"
    by (simp add: extract_skills_from_text_def extract_skills_with_def unique_sorted_skills_eq)
  have b: "sorted (unique_sorted_skills SKILL_KEYWORDS t)"
    "distinct (unique_sorted_skills SKILL_KEYWORDS t)"
    by (simp_all add: unique_sorted_skills_eq)
  have c: "extract_skills_with v t = extract_skills_from_text t" if "set v = set SKILL_KEYWORDS"
    using that
    by (simp add: extract_skills_from_text_def extract_skills_with_def unique_sorted_skills_eq)
  have d: "extract_skills_from_text t = extract_skills_from_text t'"
    if "\<forall>k \<in> set SKILL_KEYWORDS. py_in k (lower t) = py_in k (lower t')"
    using unique_sorted_skills_cong [OF that]
    by (simp add: extract_skills_from_text_def extract_skills_with_def)
  have e: "extract_skills_from_text t = extract_skills_from_text t'" if "lower t = lower t'"
    using that d by simp
  show ?thesis using a b c d e by blast
qed

theorem extract_skills_sorted_deduplicated_witness:
  "set (rev SKILL_KEYWORDS) = set SKILL_KEYWORDS
   \<and> extract_skills_with (rev SKILL_KEYWORDS) ''SQL, then Python; python again'' = ''python, sql''
   \<and> lower ''SQL, then Python; python again'' = lower ''sql, THEN python; Python Again''
   \<and> extract_skills_from_text ''sql, THEN python; Python Again'' = ''python, sql''
   \<and> list_all (\<lambda>k. py_in k (lower ''SQL, then Python; python again'') = py_in k (lower ''PYTHON / sql''))
        SKILL_KEYWORDS
   \<and> extract_skills_from_text ''PYTHON / sql'' = ''python, sql''"
proof -
  let ?t = "''SQL, then Python; python again''"
  have v: "set (rev SKILL_KEYWORDS) = set SKILL_KEYWORDS" by simp
  have l: "lower ?t = lower ''sql, THEN python; Python Again''" by code_simp
  have m: "list_all (\<lambda>k. py_in k (lower ?t) = py_in k (lower ''PYTHON / sql'')) SKILL_KEYWORDS"
    by code_simp
  have x: "extract_skills_from_text ?t = ''python, sql''" by code_simp
  have "extract_skills_with (rev SKILL_KEYWORDS) ?t = extract_skills_from_text ?t"
    using extract_skills_sorted_deduplicated [of ?t "rev SKILL_KEYWORDS" ?t] v by blast
  moreover have "extract_skills_from_text ?t = extract_skills_from_text ''sql, THEN python; Python Again''"
    using extract_skills_sorted_deduplicated [of ?t "rev SKILL_KEYWORDS" "''sql, THEN python; Python Again''"] l
    by blast
  moreover have "extract_skills_from_text ?t = extract_skills_from_text ''PYTHON / sql''"
    using extract_skills_sorted_deduplicated [of ?t "rev SKILL_KEYWORDS" "''PYTHON / sql''"] m
    unfolding list_all_iff by blast
  ultimately show ?thesis using v l m x by simp
qed

section \<open>Rejected uploads\<close>

text \<open>
  Claim C8. When the validator rejects the text, or the text is accepted and skill
  extraction yields the empty string, the upload returns before anything is stored: the
  database is unchanged (no \<open>Resume\<close>, no \<open>Score\<close>), and the two failures are
  reported with two different messages.
\<close>

theorem upload_aborts_before_persistence:
  "(req_method req = ''POST'' \<and> files_resume req = Some f
      \<and> \<not> looks_like_resume (strip (file_text f))
    \<longrightarrow> upload_resume st d req =
          (d, Inr \<lparr>message = Some (Error, MSG_NOT_A_RESUME), response = Redirect ''upload_resume''\<rparr>))
   \<and> (req_method req = ''POST'' \<and> files_resume req = Some f
      \<and> looks_like_resume (strip (file_text f))
      \<and> extract_skills_from_text (strip (file_text f)) = []
    \<longrightarrow> upload_resume st d req =
          (d, Inr \<lparr>message = Some (Error, MSG_NO_SKILLS), response = Redirect ''upload_resume''\<rparr>))
   \<and> MSG_NOT_A_RESUME \<noteq> MSG_NO_SKILLS"
  using MSG_distinct(1)
  by (simp add: upload_resume_def extract_text_from_resume_def Let_def)

theorem upload_aborts_before_persistence_witness:
  "fst (upload_resume sample_stop_words sample_db (sample_request sample_short_text)) = sample_db
   \<and> snd (upload_resume sample_stop_words sample_db (sample_request sample_short_text)) =
       Inr \<lparr>message = Some (Error, MSG_NOT_A_RESUME), response = Redirect ''upload_resume''\<rparr>
   \<and> fst (upload_resume sample_stop_words sample_db (sample_request sample_no_skill_text)) = sample_db
   \<and> snd (upload_resume sample_stop_words sample_db (sample_request sample_no_skill_text)) =
       Inr \<lparr>message = Some (Error, MSG_NO_SKILLS), response = Redirect ''upload_resume''\<rparr>
   \<and> resumes sample_db = [] \<and> scores sample_db = []"
proof -
  have r: "req_method (sample_request x) = ''POST''"
    "files_resume (sample_request x) = Some \<lparr>file_name = ''cv.txt'', file_text = x\<rparr>" for x
    by (simp_all add: sample_request_def)
  have e: "resumes sample_db = []" "scores sample_db = []"
    by (simp_all add: sample_db_def)
  show ?thesis
    using upload_aborts_before_persistence
        [of "sample_request sample_short_text" "\<lparr>file_name = ''cv.txt'', file_text = sample_short_text\<rparr>"
          sample_stop_words sample_db]
      upload_aborts_before_persistence
        [of "sample_request sample_no_skill_text"
          "\<lparr>file_name = ''cv.txt'', file_text = sample_no_skill_text\<rparr>" sample_stop_words sample_db]
      r e sample_short_text_facts sample_no_skill_text_facts
    by simp
qed

section \<open>The loop over the jobs\<close>

lemma scores_create_score:
  "scores (create_score d r j v m) =
     scores d @ [\<lparr>score_id = next_score_id d, resume = r, job = j, score_value = v,
                  recommended_skills = m, is_shortlisted = False, status = DRAFT\<rparr>]"
  "jobs (create_score d r j v m) = jobs d"
  "resumes (create_score d r j v m) = resumes d"
  by (simp_all add: create_score_def)

lemma already_exists_iff:
  "already_exists d j u \<longleftrightarrow>
     (\<exists>s \<in> set (scores d). job_id (job s) = job_id j \<and> resume_user (resume s) = Some u)"
  by (simp add: already_exists_def list_ex_iff)

lemma already_exists_cong:
  "scores d = scores d' \<Longrightarrow> already_exists d j u = already_exists d' j u"
  by (simp add: already_exists_def)



text \<open>The loop only appends rows, each for a job that had none for the user when the
  loop began; the flag it returns tells whether it appended any.\<close>

lemma create_drafts_appends:
  "\<exists>new. scores (fst (create_drafts st u r sk js d b)) = scores d @ new
     \<and> jobs (fst (create_drafts st u r sk js d b)) = jobs d
     \<and> (\<forall>s \<in> set new. resume s = r \<and> status s = DRAFT \<and> \<not> is_shortlisted s
           \<and> job s \<in> set js \<and> \<not> already_exists d (job s) u)
     \<and> (\<forall>b'. snd (create_drafts st u r sk js d b) = Inr b' \<longrightarrow> b' = (b \<or> new \<noteq> []))"
proof (induction js arbitrary: d b)
  case Nil
  then show ?case by simp
next
  case (Cons j js)
  show ?case
  proof (cases "already_exists d j u")
    case True
    from Cons.IH [of d b] obtain new where
      "scores (fst (create_drafts st u r sk js d b)) = scores d @ new"
      "jobs (fst (create_drafts st u r sk js d b)) = jobs d"
      "\<forall>s \<in> set new. resume s = r \<and> status s = DRAFT \<and> \<not> is_shortlisted s
           \<and> job s \<in> set js \<and> \<not> already_exists d (job s) u"
      "\<forall>b'. snd (create_drafts st u r sk js d b) = Inr b' \<longrightarrow> b' = (b \<or> new \<noteq> [])"
      by blast
    then show ?thesis using True by (intro exI [of _ new]) simp
  next
    case False
    show ?thesis
    proof (cases "score st sk (required_skills j)")
      case (Inl e)
      then show ?thesis using False by (intro exI [of _ "[]"]) simp
    next
      case (Inr v)
      let ?m = "missing_skills sk (required_skills j)"
      let ?d1 = "create_score d r j v ?m"
      let ?s = "\<lparr>score_id = next_score_id d, resume = r, job = j, score_value = v,
                  recommended_skills = ?m, is_shortlisted = False, status = DRAFT\<rparr>"
      have step: "create_drafts st u r sk (j # js) d b = create_drafts st u r sk js ?d1 True"
        using False Inr by simp
      from Cons.IH [of ?d1 True] obtain new where n:
        "scores (fst (create_drafts st u r sk js ?d1 True)) = scores ?d1 @ new"
        "jobs (fst (create_drafts st u r sk js ?d1 True)) = jobs ?d1"
        "\<forall>s \<in> set new. resume s = r \<and> status s = DRAFT \<and> \<not> is_shortlisted s
           \<and> job s \<in> set js \<and> \<not> already_exists ?d1 (job s) u"
        "\<forall>b'. snd (create_drafts st u r sk js ?d1 True) = Inr b' \<longrightarrow> b' = (True \<or> new \<noteq> [])"
        by blast
      have anti: "\<not> already_exists d j' u" if "\<not> already_exists ?d1 j' u" for j'
        using that by (auto simp: already_exists_iff scores_create_score)
      have "scores (fst (create_drafts st u r sk (j # js) d b)) = scores d @ (?s # new)"
        using step n(1) by (simp add: scores_create_score)
      moreover have "jobs (fst (create_drafts st u r sk (j # js) d b)) = jobs d"
        using step n(2) by (simp add: scores_create_score)
      moreover have "\<forall>s \<in> set (?s # new). resume s = r \<and> status s = DRAFT \<and> \<not> is_shortlisted s
           \<and> job s \<in> set (j # js) \<and> \<not> already_exists d (job s) u"
        using n(3) anti False by auto
      moreover have "\<forall>b'. snd (create_drafts st u r sk (j # js) d b) = Inr b'
           \<longrightarrow> b' = (b \<or> ?s # new \<noteq> [])"
        using step n(4) by simp
      ultimately show ?thesis by blast
    qed
  qed
qed




section \<open>The upload view as a whole\<close>


lemma upload_valid:
  assumes "req_method req = ''POST''" "files_resume req = Some f"
    "looks_like_resume (strip (file_text f))"
    "extract_skills_from_text (strip (file_text f)) \<noteq> []"
  shows "\<exists>sk. \<forall>st d. \<exists>r d1. resume_user r = Some (req_user req)
      \<and> scores d1 = scores d \<and> jobs d1 = jobs d
      \<and> upload_resume st d req =
          finish_upload (create_drafts st (req_user req) r sk (jobs d) d1 False)"
proof -
  let ?ex = "extract_skills_from_text (strip (file_text f))"
  let ?extra = "strip (case post_skills req of None \<Rightarrow> [] | Some s \<Rightarrow> s)"
  let ?sk = "join '', '' ([?ex] @ (if ?extra \<noteq> [] then [?extra] else []))"
  have "\<exists>r d1. resume_user r = Some (req_user req)
      \<and> scores d1 = scores d \<and> jobs d1 = jobs d
      \<and> upload_resume st d req =
          finish_upload (create_drafts st (req_user req) r ?sk (jobs d) d1 False)" for st d
  proof -
    let ?r = "\<lparr>resume_id = next_resume_id d, resume_user = Some (req_user req),
               resume_file = file_name f, skills = ?sk\<rparr>"
    let ?d1 = "d\<lparr>resumes := resumes d @ [?r], next_resume_id := Suc (next_resume_id d)\<rparr>"
    have "upload_resume st d req =
          finish_upload (create_drafts st (req_user req) ?r ?sk (jobs d) ?d1 False)"
      using assms
      by (simp add: upload_resume_def extract_text_from_resume_def Let_def)
    moreover have "resume_user ?r = Some (req_user req)" "scores ?d1 = scores d" "jobs ?d1 = jobs d"
      by simp_all
    ultimately show ?thesis by blast
  qed
  then show ?thesis by blast
qed

lemma fst_finish_upload: "fst (finish_upload p) = fst p"
  by (auto simp: finish_upload_def split: prod.splits sum.splits)

lemma create_drafts_all_exist:
  assumes "\<forall>j \<in> set js. already_exists d j u"
  shows "create_drafts st u r sk js d b = (d, Inr b)"
  using assms by (induction js) auto




section \<open>The outcome when nothing new is created\<close>

text \<open>
  Claim C3, as amended. When an accepted upload creates no new \<open>Score\<close> because every
  job already has one for this user, which includes the case that there are no jobs at
  all, the caller gets the warning "You have already created applications for all
  current jobs. No new applications were created."; of an accepted upload that returns,
  the message is this warning exactly when no \<open>Score\<close> was created and the success
  message otherwise, and the two messages differ. The case of no jobs has no message
  of its own.
\<close>

theorem zero_new_records_one_warning:
  "(req_method req = ''POST'' \<and> files_resume req = Some f
      \<and> looks_like_resume (strip (file_text f))
      \<and> extract_skills_from_text (strip (file_text f)) \<noteq> []
      \<and> (\<forall>j \<in> set (jobs d). already_exists d j (req_user req))
    \<longrightarrow> scores (fst (upload_resume st d req)) = scores d
        \<and> snd (upload_resume st d req) =
            Inr \<lparr>message = Some (Warning, MSG_ALL_APPLIED), response = Redirect ''my_applications''\<rparr>)
   \<and> (req_method req = ''POST'' \<and> files_resume req = Some f
      \<and> looks_like_resume (strip (file_text f))
      \<and> extract_skills_from_text (strip (file_text f)) \<noteq> []
      \<and> snd (upload_resume st d req) = Inr out
    \<longrightarrow> message out =
          (if scores (fst (upload_resume st d req)) = scores d
           then Some (Warning, MSG_ALL_APPLIED) else Some (Success, MSG_ANALYSED)))
   \<and> MSG_ALL_APPLIED \<noteq> MSG_ANALYSED"
proof -
  have general: "message out =
          (if scores (fst (upload_resume st d req)) = scores d
           then Some (Warning, MSG_ALL_APPLIED) else Some (Success, MSG_ANALYSED))"
    if f: "req_method req = ''POST''" "files_resume req = Some f"
      "looks_like_resume (strip (file_text f))"
      "extract_skills_from_text (strip (file_text f)) \<noteq> []"
      and out: "snd (upload_resume st d req) = Inr out" for out
  proof -
    from upload_valid [OF f] obtain sk r d1 where run:
      "scores d1 = scores d"
      "upload_resume st d req = finish_upload (create_drafts st (req_user req) r sk (jobs d) d1 False)"
      by blast
    let ?p = "create_drafts st (req_user req) r sk (jobs d) d1 False"
    from create_drafts_appends [of st "req_user req" r sk "jobs d" d1 False] obtain new where new:
      "scores (fst ?p) = scores d1 @ new"
      "\<forall>b'. snd ?p = Inr b' \<longrightarrow> b' = (False \<or> new \<noteq> [])"
      by blast
    obtain d2 res where p: "?p = (d2, res)" by (cases ?p)
    obtain b' where b': "res = Inr b'"
      using out run(2) p by (cases res) (auto simp: finish_upload_def)
    have flag: "b' = (new \<noteq> [])" using new(2) p b' by simp
    have sc: "scores (fst (upload_resume st d req)) = scores d @ new"
      using new(1) run by (simp add: fst_finish_upload)
    show ?thesis
      using out run(2) p b' flag sc by (auto simp: finish_upload_def split: if_splits)
  qed
  have none: "scores (fst (upload_resume st d req)) = scores d
        \<and> snd (upload_resume st d req) =
            Inr \<lparr>message = Some (Warning, MSG_ALL_APPLIED), response = Redirect ''my_applications''\<rparr>"
    if f: "req_method req = ''POST''" "files_resume req = Some f"
      "looks_like_resume (strip (file_text f))"
      "extract_skills_from_text (strip (file_text f)) \<noteq> []"
      and all: "\<forall>j \<in> set (jobs d). already_exists d j (req_user req)"
  proof -
    from upload_valid [OF f] obtain sk r d1 where run:
      "scores d1 = scores d" "jobs d1 = jobs d"
      "upload_resume st d req = finish_upload (create_drafts st (req_user req) r sk (jobs d) d1 False)"
      by blast
    have "\<forall>j \<in> set (jobs d). already_exists d1 j (req_user req)"
      using all already_exists_cong [OF run(1)] by simp
    then have "create_drafts st (req_user req) r sk (jobs d) d1 False = (d1, Inr False)"
      by (rule create_drafts_all_exist)
    then show ?thesis using run by (simp add: finish_upload_def)
  qed
  show ?thesis using general none MSG_distinct(2) by blast
qed

theorem zero_new_records_one_warning_witness:
  "jobs sample_db_no_jobs = []
   \<and> snd (upload_resume sample_stop_words sample_db_no_jobs (sample_request sample_resume_text)) =
       Inr \<lparr>message = Some (Warning, MSG_ALL_APPLIED), response = Redirect ''my_applications''\<rparr>
   \<and> already_exists sample_db_matched sample_job 7
   \<and> scores (fst (upload_resume sample_stop_words sample_db_matched (sample_request sample_resume_text)))
       = scores sample_db_matched
   \<and> snd (upload_resume sample_stop_words sample_db_matched (sample_request sample_resume_text)) =
       Inr \<lparr>message = Some (Warning, MSG_ALL_APPLIED), response = Redirect ''my_applications''\<rparr>"
proof -
  let ?f = "\<lparr>file_name = ''cv.txt'', file_text = sample_resume_text\<rparr>"
  have r: "req_method (sample_request sample_resume_text) = ''POST''"
    "files_resume (sample_request sample_resume_text) = Some ?f"
    "req_user (sample_request sample_resume_text) = 7"
    by (simp_all add: sample_request_def)
  have g: "looks_like_resume (strip (file_text ?f))"
    "extract_skills_from_text (strip (file_text ?f)) \<noteq> []"
    by (simp_all add: sample_resume_text_facts)
  have j0: "jobs sample_db_no_jobs = []" by (simp add: sample_db_no_jobs_def)
  have j1: "jobs sample_db_matched = [sample_job]" by (simp add: sample_db_matched_def)
  have e: "already_exists sample_db_matched sample_job 7"
    by (simp add: already_exists_def sample_db_matched_def sample_score_def sample_resume_def)
  show ?thesis
    using zero_new_records_one_warning
        [of "sample_request sample_resume_text" ?f sample_db_no_jobs sample_stop_words]
      zero_new_records_one_warning
        [of "sample_request sample_resume_text" ?f sample_db_matched sample_stop_words]
      r g j0 j1 e
    by simp
qed

text \<open>
  Claim C3 as stated fails: with no job in the database the view answers exactly as it
  does when the only job is already matched for the user.
\<close>

theorem no_jobs_not_signalled_apart_counterexample:
  "jobs sample_db_no_jobs = [] \<and> jobs sample_db_matched = [sample_job]
   \<and> already_exists sample_db_matched sample_job 7
   \<and> snd (upload_resume sample_stop_words sample_db_no_jobs (sample_request sample_resume_text)) =
       snd (upload_resume sample_stop_words sample_db_matched (sample_request sample_resume_text))"
proof -
  have j: "jobs sample_db_no_jobs = []" "jobs sample_db_matched = [sample_job]"
    by (simp_all add: sample_db_no_jobs_def sample_db_matched_def)
  have e: "already_exists sample_db_matched sample_job 7"
    by (simp add: already_exists_def sample_db_matched_def sample_score_def sample_resume_def)
  have s: "snd (upload_resume sample_stop_words sample_db_no_jobs (sample_request sample_resume_text)) =
       snd (upload_resume sample_stop_words sample_db_matched (sample_request sample_resume_text))"
    by (simp add: upload_sample_matched upload_sample_no_jobs)
  show ?thesis using j e s by simp
qed

section \<open>The scorer on texts without tokens\<close>

lemma tf_Nil: "tf [] t = 0"
  by (simp add: tf_def)

lemma l2_norm_zeros: "l2_norm (replicate n 0) = 0"
  by (induction n) (simp_all add: l2_norm_def)

lemma normalize_zeros: "normalize (replicate n 0) = replicate n 0"
  by (simp add: normalize_def l2_norm_zeros)

lemma dot_zeros_left: "dot (replicate n 0) w = 0"
proof (induction n arbitrary: w)
  case 0
  then show ?case by (simp add: dot_def)
next
  case (Suc n)
  then show ?case by (cases w) (simp_all add: dot_def)
qed

lemma dot_zeros_right: "dot w (replicate n 0) = 0"
proof (induction n arbitrary: w)
  case 0
  then show ?case by (simp add: dot_def)
next
  case (Suc n)
  then show ?case by (cases w) (simp_all add: dot_def)
qed

lemma tfidf_row_Nil: "tfidf_row docs vocabulary [] = replicate (length vocabulary) 0"
  by (simp add: tfidf_row_def tf_Nil map_replicate_const normalize_zeros)

lemma py_round2_zero: "py_round2 0 = 0"
  by (simp add: py_round2_def round_half_even_def)

lemma sorted_set_Nil_iff: "sorted_set xs = [] \<longleftrightarrow> xs = []"
proof -
  have "set (sorted_set xs) = set xs" by (simp add: sorted_set_def)
  then show ?thesis by (metis set_empty)
qed

lemma score_both_empty:
  "analyze st a = [] \<Longrightarrow> analyze st b = [] \<Longrightarrow> score st a b = Inl ValueError"
  by (simp add: score_def sorted_set_def)

text \<open>
  Claim C1, as amended. For every pair of texts of which exactly one yields no token
  after tokenization and stop-word removal, the scorer returns the value 0.0 and does
  not raise; in particular \<open>score("", "python")\<close> is 0.0, "python" not being a stop
  word.
\<close>

theorem score_zero_when_one_text_empty:
  "((analyze st a = [] \<or> analyze st b = []) \<and> (analyze st a \<noteq> [] \<or> analyze st b \<noteq> [])
      \<longrightarrow> score st a b = Inr 0)
   \<and> (''python'' \<notin> set st \<longrightarrow> score st '''' ''python'' = Inr 0)"
proof -
  have main: "score st a b = Inr 0"
    if e: "analyze st a = [] \<or> analyze st b = []"
      and n: "analyze st a \<noteq> [] \<or> analyze st b \<noteq> []" for st a b
  proof -
    let ?docs = "[analyze st a, analyze st b]"
    let ?v = "sorted_set (concat ?docs)"
    have v: "?v \<noteq> []" using n by (simp add: sorted_set_Nil_iff)
    have "cosine_similarity (tfidf_row ?docs ?v (analyze st a)) (tfidf_row ?docs ?v (analyze st b)) = 0"
      using e
      by (auto simp: cosine_similarity_def tfidf_row_Nil normalize_zeros dot_zeros_left dot_zeros_right)
    then show ?thesis
      using v by (simp add: score_def Let_def py_round2_zero)
  qed
  have py: "score st '''' ''python'' = Inr 0" if "''python'' \<notin> set st"
  proof -
    have t: "tokenize (lower '''') = []" "tokenize (lower ''python'') = [''python'']"
      by code_simp+
    have "analyze st '''' = []" "analyze st ''python'' \<noteq> []"
      using that by (simp_all add: analyze_def t)
    then show ?thesis using main by blast
  qed
  show ?thesis using main py by blast
qed

theorem score_zero_when_one_text_empty_witness:
  "analyze sample_stop_words '''' = []
   \<and> analyze sample_stop_words ''python'' = [''python'']
   \<and> ''python'' \<notin> set sample_stop_words
   \<and> score sample_stop_words '''' ''python'' = Inr 0
   \<and> analyze sample_stop_words ''the'' = []
   \<and> score sample_stop_words ''python, sql'' ''the'' = Inr 0"
proof -
  have a: "analyze sample_stop_words '''' = []"
    "analyze sample_stop_words ''python'' = [''python'']"
    "analyze sample_stop_words ''the'' = []"
    "analyze sample_stop_words ''python, sql'' = [''python'', ''sql'']"
    by code_simp+
  have p: "''python'' \<notin> set sample_stop_words"
    by (simp add: sample_stop_words_def)
  show ?thesis
    using score_zero_when_one_text_empty [of sample_stop_words "''python, sql''" "''the''"] a p
    by simp
qed

lemma sample_c_text_facts:
  "strip sample_c_text = sample_c_text"
  "looks_like_resume sample_c_text"
  "extract_skills_from_text sample_c_text = ''c''"
  by code_simp+

lemma sample_c_tokens:
  "analyze sample_stop_words ''c'' = []"
  "analyze sample_stop_words ''C, C++'' = []"
  by code_simp+

text \<open>
  Claim C1 as stated fails when both texts yield no token: fitting the vectorizer
  raises \<open>ValueError\<close> (empty vocabulary). The skill text "c" and the job text
  "C, C++" are such a pair, since a token needs two word characters; an upload of
  a resume in which only the keyword "c" is found, with such a job in the database,
  ends in that exception after the resume has been stored.
\<close>

theorem score_raises_when_both_empty_counterexample:
  "analyze sample_stop_words ''c'' = []
   \<and> analyze sample_stop_words ''C, C++'' = []
   \<and> score sample_stop_words ''c'' ''C, C++'' = Inl ValueError
   \<and> upload_resume sample_stop_words sample_db_c (sample_request sample_c_text) =
       (sample_db_c
          \<lparr>resumes := [\<lparr>resume_id = 1, resume_user = Some 7, resume_file = ''cv.txt'',
                        skills = ''c''\<rparr>],
           next_resume_id := 2\<rparr>,
        Inl ValueError)"
proof -
  have s: "score sample_stop_words ''c'' ''C, C++'' = Inl ValueError"
    using sample_c_tokens by (rule score_both_empty)
  have rs: "required_skills sample_c_job = ''C, C++''"
    by (simp add: sample_c_job_def)
  have u: "upload_resume sample_stop_words sample_db_c (sample_request sample_c_text) =
       (sample_db_c
          \<lparr>resumes := [\<lparr>resume_id = 1, resume_user = Some 7, resume_file = ''cv.txt'',
                        skills = ''c''\<rparr>],
           next_resume_id := 2\<rparr>,
        Inl ValueError)"
    by (simp add: upload_resume_def finish_upload_def sample_request_def
        extract_text_from_resume_def Let_def sample_c_text_facts strip_Nil
        already_exists_def sample_db_c_def rs s)
  show ?thesis using sample_c_tokens s u by simp
qed

section \<open>The lifecycle of a score\<close>

lemma toggle_never_back: "status_rank (status sc) \<le> status_rank (status (toggle sc))"
  by (cases "status sc") (simp_all add: toggle_def Let_def)

lemma find_unique_id:
  assumes "distinct (map score_id xs)" "find P xs = Some sc" "s \<in> set xs" "score_id s = score_id sc"
  shows "s = sc"
proof -
  have "sc \<in> set xs" using assms(2) by (auto simp: find_Some_iff)
  moreover have "inj_on score_id (set xs)" using assms(1) by (simp add: distinct_map)
  ultimately show ?thesis using assms(3,4) by (auto dest: inj_onD)
qed

lemma save_score_never_back:
  assumes "distinct (map score_id (scores d))" "find P (scores d) = Some sc"
    and "score_id sc' = score_id sc" "status_rank (status sc) \<le> status_rank (status sc')"
  shows "list_all2 (\<lambda>s s'. score_id s' = score_id s \<and> status_rank (status s) \<le> status_rank (status s'))
           (scores d) (scores (save_score d sc'))"
proof -
  have "score_id (if score_id s = score_id sc' then sc' else s) = score_id s
      \<and> status_rank (status s) \<le> status_rank (status (if score_id s = score_id sc' then sc' else s))"
    if "s \<in> set (scores d)" for s
    using find_unique_id [OF assms(1,2) that] assms(3,4) by auto
  then show ?thesis
    by (simp add: save_score_def list_all2_map2 list_all2_same)
qed

lemma list_all2_rank_refl:
  "list_all2 (\<lambda>s s'. score_id s' = score_id s \<and> status_rank (status s) \<le> status_rank (status s'))
     xs xs"
  by (simp add: list_all2_same)

text \<open>With distinct primary keys, neither view moves the status of any row back.\<close>

lemma toggle_shortlist_never_back:
  assumes "distinct (map score_id (scores d))"
  shows "list_all2 (\<lambda>s s'. score_id s' = score_id s \<and> status_rank (status s) \<le> status_rank (status s'))
           (scores d) (scores (fst (toggle_shortlist d sid)))"
proof (cases "find (\<lambda>s. score_id s = sid) (scores d)")
  case None
  then show ?thesis by (simp add: toggle_shortlist_def list_all2_rank_refl)
next
  case (Some sc)
  have "score_id (toggle sc) = score_id sc" by (simp add: toggle_def Let_def)
  then show ?thesis
    using save_score_never_back [OF assms Some _ toggle_never_back] Some
    by (simp add: toggle_shortlist_def)
qed

lemma submit_application_never_back:
  assumes "distinct (map score_id (scores d))"
  shows "list_all2 (\<lambda>s s'. score_id s' = score_id s \<and> status_rank (status s) \<le> status_rank (status s'))
           (scores d) (scores (fst (submit_application d u sid)))"
proof (cases "find (\<lambda>s. score_id s = sid \<and> resume_user (resume s) = Some u) (scores d)")
  case None
  then show ?thesis by (simp add: submit_application_def list_all2_rank_refl)
next
  case (Some sc)
  show ?thesis
  proof (cases "status sc = DRAFT")
    case True
    have "score_id (sc\<lparr>status := SUBMITTED\<rparr>) = score_id sc"
      "status_rank (status sc) \<le> status_rank (status (sc\<lparr>status := SUBMITTED\<rparr>))"
      using True by simp_all
    then show ?thesis
      using save_score_never_back [OF assms Some] Some True
      by (simp add: submit_application_def)
  next
    case False
    then show ?thesis using Some by (simp add: submit_application_def list_all2_rank_refl)
  qed
qed

text \<open>
  Claim C2. The status moves forward along \<open>DRAFT\<close>, \<open>SUBMITTED\<close>, then
  \<open>SHORTLISTED\<close> or \<open>REJECTED\<close>, and a record is shortlisted or rejected only after it
  has been submitted. Neither view moves a status back, as the lemmas above say;
  but the toggle has no test of the status, so it takes a record that was never
  submitted from \<open>DRAFT\<close> straight to \<open>SHORTLISTED\<close>, and on a second call to
  \<open>REJECTED\<close>. The theorem evaluates the view on such a record.
\<close>

theorem toggle_shortlists_a_draft:
  "map status (scores sample_db_matched) = [DRAFT]
   \<and> map status (scores (fst (toggle_shortlist sample_db_matched 1))) = [SHORTLISTED]
   \<and> map status (scores (fst (toggle_shortlist (fst (toggle_shortlist sample_db_matched 1)) 1)))
       = [REJECTED]
   \<and> snd (toggle_shortlist sample_db_matched 1) =
       Inr \<lparr>message = None, response = Redirect ''recruiter_dashboard''\<rparr>"
  by (simp add: toggle_shortlist_def save_score_def toggle_def Let_def
      sample_db_matched_def sample_score_def)

section \<open>One score per user and job\<close>










end
